theory Spec2Isabelle
  imports Main "HOL-Library.Sublist" "HOL-Library.Signed_Division" "HOL-Library.Code_Target_Nat"
begin

unbundle bit_operations_syntax

section \<open>Library functions the timer calls\<close>

text \<open>
  The program is a Go command (\<^verbatim>\<open>cmd.go\<close>). It leans on a few functions of
  Go's standard library whose results decide what the program does: \<^verbatim>\<open>filepath.Base\<close>,
  \<^verbatim>\<open>filepath.Ext\<close>, \<^verbatim>\<open>strings.Replace\<close>, \<^verbatim>\<open>strings.Split\<close> and
  \<^verbatim>\<open>time.ParseDuration\<close>. They are embedded here as the standard library defines them
  (Unix build, separator \<^verbatim>\<open>/\<close>); strings are byte lists.
\<close>

subsection \<open>path/filepath\<close>

definition isPathSeparator :: "char \<Rightarrow> bool" where
  "isPathSeparator c = (c = CHR ''/'')"

text \<open>\<^verbatim>\<open>filepath.Base\<close>: the empty path is \<^verbatim>\<open>.\<close>; trailing separators are dropped, then
  everything up to the last separator; a path of separators only is \<^verbatim>\<open>/\<close>.\<close>

definition stripTrailingSeparators :: "string \<Rightarrow> string" where
  "stripTrailingSeparators path = rev (dropWhile isPathSeparator (rev path))"

definition lastElement :: "string \<Rightarrow> string" where
  "lastElement path = rev (takeWhile (\<lambda>c. \<not> isPathSeparator c) (rev path))"

definition Base :: "string \<Rightarrow> string" where
  "Base path =
     (if path = [] then ''.''
      else let p = lastElement (stripTrailingSeparators path)
           in if p = [] then ''/'' else p)"

text \<open>\<^verbatim>\<open>filepath.Ext\<close> scans from the end of the path towards the last separator and
  returns the suffix that starts at the first dot it meets; no dot, no extension. The
  first argument of \<open>extScan\<close> is the unscanned part reversed, the second the part
  already passed.\<close>

fun extScan :: "string \<Rightarrow> string \<Rightarrow> string" where
  "extScan [] seen = []"
| "extScan (c # cs) seen =
     (if isPathSeparator c then []
      else if c = CHR ''.'' then c # seen
      else extScan cs (c # seen))"

definition Ext :: "string \<Rightarrow> string" where
  "Ext path = extScan (rev path) []"

subsection \<open>strings\<close>

text \<open>\<^verbatim>\<open>strings.Replace(s, old, new, 1)\<close>: the first occurrence of \<open>old\<close> in \<open>s\<close>,
  scanning from the left, is replaced; an empty \<open>old\<close> matches at the start; with no
  occurrence, or \<open>old = new\<close>, the result is \<open>s\<close>.\<close>

fun replaceFirst :: "string \<Rightarrow> string \<Rightarrow> string \<Rightarrow> string" where
  "replaceFirst [] old new = (if old = [] then new else [])"
| "replaceFirst (c # cs) old new =
     (if prefix old (c # cs) then new @ drop (length old) (c # cs)
      else c # replaceFirst cs old new)"

definition Replace1 :: "string \<Rightarrow> string \<Rightarrow> string \<Rightarrow> string" where
  "Replace1 s old new = (if old = new then s else replaceFirst s old new)"

text \<open>\<^verbatim>\<open>strings.Split(s, " ")\<close>: the pieces of \<open>s\<close> between single spaces; never an
  empty list (the empty string splits into one empty piece).\<close>

fun SplitSpace :: "string \<Rightarrow> string list" where
  "SplitSpace [] = [[]]"
| "SplitSpace (c # cs) =
     (if c = CHR '' '' then [] # SplitSpace cs
      else (case SplitSpace cs of [] \<Rightarrow> [[c]] | w # ws \<Rightarrow> (c # w) # ws))"

subsection \<open>time.ParseDuration\<close>

text \<open>
  \<^verbatim>\<open>time.ParseDuration\<close> reads \<^verbatim>\<open>[-+]?([0-9]*(\.[0-9]*)?[a-z]+)+\<close>: an optional sign,
  then one or more numbers, each with an optional fraction and a unit. A
  \<^verbatim>\<open>Duration\<close> is a signed 64-bit count of nanoseconds; the parser accumulates in
  \<^verbatim>\<open>uint64\<close>, written here as \<open>nat\<close> with the wrap-around \<open>mod 2 ^ 64\<close> where a
  sum can reach it.
\<close>

datatype duration_error = InvalidDuration | MissingUnit | UnknownUnit string

definition isDigit :: "char \<Rightarrow> bool" where
  "isDigit c = (48 \<le> (of_char c :: nat) \<and> (of_char c :: nat) \<le> 57)"

definition digitVal :: "char \<Rightarrow> nat" where
  "digitVal c = of_char c - 48"

text \<open>\<^verbatim>\<open>leadingInt\<close> consumes the leading digits of the string; \<open>None\<close> is its
  overflow error (a value beyond \<open>2 ^ 63\<close>).\<close>

fun leadingInt :: "nat \<Rightarrow> string \<Rightarrow> (nat \<times> string) option" where
  "leadingInt x [] = Some (x, [])"
| "leadingInt x (c # cs) =
     (if \<not> isDigit c then Some (x, c # cs)
      else if x > 2 ^ 63 div 10 then None
      else if x * 10 + digitVal c > 2 ^ 63 then None
      else leadingInt (x * 10 + digitVal c) cs)"

text \<open>\<^verbatim>\<open>leadingFraction\<close> consumes the digits after the point. It returns the digits
  read as an integer and their number \<open>k\<close> (the source keeps \<^verbatim>\<open>scale\<close>, a
  \<^verbatim>\<open>float64\<close> multiplied by ten \<open>k\<close> times); once the integer would overflow, further
  digits are consumed and ignored.\<close>

fun leadingFraction :: "nat \<Rightarrow> nat \<Rightarrow> bool \<Rightarrow> string \<Rightarrow> nat \<times> nat \<times> string" where
  "leadingFraction x k overflow [] = (x, k, [])"
| "leadingFraction x k overflow (c # cs) =
     (if \<not> isDigit c then (x, k, c # cs)
      else if overflow then leadingFraction x k overflow cs
      else if x > (2 ^ 63 - 1) div 10 then leadingFraction x k True cs
      else if x * 10 + digitVal c > 2 ^ 63 then leadingFraction x k True cs
      else leadingFraction (x * 10 + digitVal c) (Suc k) False cs)"

text \<open>The units, in nanoseconds. The two spellings of the micro sign are the UTF-8
  bytes of U+00B5 and U+03BC.\<close>

definition unitMap :: "string \<rightharpoonup> nat" where
  "unitMap = map_of
     [(''ns'', 1),
      (''us'', 1000),
      ([CHR 0xC2, CHR 0xB5, CHR ''s''], 1000),
      ([CHR 0xCE, CHR 0xBC, CHR ''s''], 1000),
      (''ms'', 1000000),
      (''s'', 1000000000),
      (''m'', 60000000000),
      (''h'', 3600000000000)]"

definition unitChar :: "char \<Rightarrow> bool" where
  "unitChar c = (\<not> (c = CHR ''.'' \<or> isDigit c))"

text \<open>
  One round of the parser's loop, on a non-empty rest \<open>s\<close>: a number, an optional
  fraction, a unit; the result is the value of the round in nanoseconds and the rest.
  The fraction's contribution \<^verbatim>\<open>uint64(float64(f) * (float64(unit) / scale))\<close> is
  floating-point arithmetic: it is the parameter \<open>fr\<close>, applied to the fraction's digits,
  their number and the unit.
\<close>

definition fractionPart :: "string \<Rightarrow> nat \<times> nat \<times> string \<times> bool" where
  "fractionPart s =
     (if s \<noteq> [] \<and> hd s = CHR ''.''
      then (case leadingFraction 0 0 False (tl s) of
              (f, k, r) \<Rightarrow> (f, k, r, length (tl s) \<noteq> length r))
      else (0, 0, s, False))"

definition parseChunk ::
  "(nat \<Rightarrow> nat \<Rightarrow> nat \<Rightarrow> nat) \<Rightarrow> string \<Rightarrow> duration_error + (nat \<times> string)"
where
  "parseChunk fr s =
     (if \<not> (hd s = CHR ''.'' \<or> isDigit (hd s)) then Inl InvalidDuration
      else case leadingInt 0 s of
        None \<Rightarrow> Inl InvalidDuration
      | Some (v, s1) \<Rightarrow>
          (case fractionPart s1 of
            (f, k, s2, post) \<Rightarrow>
              if length s = length s1 \<and> \<not> post then Inl InvalidDuration
              else let u = takeWhile unitChar s2; s3 = dropWhile unitChar s2 in
                if u = [] then Inl MissingUnit
                else (case unitMap u of
                  None \<Rightarrow> Inl (UnknownUnit u)
                | Some unit \<Rightarrow>
                    (if v > 2 ^ 63 div unit then Inl InvalidDuration
                     else if f > 0
                     then (let v' = (v * unit + fr f k unit) mod 2 ^ 64
                           in (if v' > 2 ^ 63 then Inl InvalidDuration else Inr (v', s3)))
                     else Inr (v * unit, s3)))))"

lemma leadingInt_length: "leadingInt x s = Some (v, r) \<Longrightarrow> length r \<le> length s"
  by (induction x s rule: leadingInt.induct) (auto split: if_splits)

lemma leadingFraction_length: "leadingFraction x k b s = (f, k', r) \<Longrightarrow> length r \<le> length s"
  by (induction x k b s rule: leadingFraction.induct) (auto split: if_splits)

lemma fractionPart_length: "fractionPart s = (f, k, r, post) \<Longrightarrow> length r \<le> length s"
  by (auto simp: fractionPart_def split: if_splits prod.splits dest!: leadingFraction_length)

lemma parseChunk_shorter: "parseChunk fr s = Inr (v, r) \<Longrightarrow> length r < length s"
proof -
  assume a: "parseChunk fr s = Inr (v, r)"
  from a obtain v0 s1 where li: "leadingInt 0 s = Some (v0, s1)"
    by (auto simp: parseChunk_def split: if_splits option.splits)
  obtain f k s2 post where fp: "fractionPart s1 = (f, k, s2, post)"
    by (cases "fractionPart s1") auto
  from a li fp have u: "takeWhile unitChar s2 \<noteq> []" and r: "r = dropWhile unitChar s2"
    by (auto simp: parseChunk_def Let_def split: if_splits option.splits)
  have "length s2 = length (takeWhile unitChar s2) + length (dropWhile unitChar s2)"
    by (metis length_append takeWhile_dropWhile_id)
  with u r have "length r < length s2" by simp
  with leadingInt_length [OF li] fractionPart_length [OF fp] show ?thesis by simp
qed

text \<open>The loop \<^verbatim>\<open>for s != ""\<close>, with the running total \<open>d\<close>.\<close>

function parseChunks ::
  "(nat \<Rightarrow> nat \<Rightarrow> nat \<Rightarrow> nat) \<Rightarrow> nat \<Rightarrow> string \<Rightarrow> duration_error + nat"
where
  "parseChunks fr d s =
     (if s = [] then Inr d
      else case parseChunk fr s of
        Inl e \<Rightarrow> Inl e
      | Inr (v, r) \<Rightarrow>
          if (d + v) mod 2 ^ 64 > 2 ^ 63 then Inl InvalidDuration
          else parseChunks fr ((d + v) mod 2 ^ 64) r)"
  by pat_completeness auto
termination
  by (relation "measure (\<lambda>(fr, d, s). length s)") (auto dest: parseChunk_shorter)

declare parseChunks.simps [simp del]

text \<open>The conversion of the total to the signed \<^verbatim>\<open>Duration\<close>, and its negation in 64
  bits.\<close>

definition int64_of_uint64 :: "nat \<Rightarrow> int" where
  "int64_of_uint64 d = (if d < 2 ^ 63 then int d else int d - 2 ^ 64)"

definition neg_int64 :: "int \<Rightarrow> int" where
  "neg_int64 x = (if x = - (2 ^ 63) then x else - x)"

definition ParseDuration ::
  "(nat \<Rightarrow> nat \<Rightarrow> nat \<Rightarrow> nat) \<Rightarrow> string \<Rightarrow> duration_error + int"
where
  "ParseDuration fr orig =
     (let neg = (orig \<noteq> [] \<and> hd orig = CHR ''-'');
          s = (if orig \<noteq> [] \<and> (hd orig = CHR ''-'' \<or> hd orig = CHR ''+'') then tl orig else orig)
      in if s = ''0'' then Inr 0
         else if s = [] then Inl InvalidDuration
         else case parseChunks fr 0 s of
           Inl e \<Rightarrow> Inl e
         | Inr d \<Rightarrow>
             if neg then Inr (neg_int64 (int64_of_uint64 d))
             else if d > 2 ^ 63 - 1 then Inl InvalidDuration
             else Inr (int d))"

subsection \<open>The duration formats\<close>

text \<open>
  The format the parser accepts, written as a recogniser of its own:
  \<^verbatim>\<open>[-+]?([0-9]*(\.[0-9]*)?unit)+\<close> with at least one digit in every number and a unit
  of \<open>unitMap\<close>, or the lone \<^verbatim>\<open>0\<close> after the sign. \<open>numberPart\<close> reads one number and
  says whether it had a digit.
\<close>

definition numberPart :: "string \<Rightarrow> bool \<times> string" where
  "numberPart s =
     (let ds = takeWhile isDigit s; s1 = dropWhile isDigit s
      in if s1 \<noteq> [] \<and> hd s1 = CHR ''.''
         then (ds \<noteq> [] \<or> takeWhile isDigit (tl s1) \<noteq> [], dropWhile isDigit (tl s1))
         else (ds \<noteq> [], s1))"

lemma numberPart_length: "numberPart s = (ok, r) \<Longrightarrow> length r \<le> length s"
proof -
  have a: "length (dropWhile isDigit s) \<le> length s" by (rule length_dropWhile_le)
  have b: "length (dropWhile isDigit (tl (dropWhile isDigit s))) \<le> length (tl (dropWhile isDigit s))"
    by (rule length_dropWhile_le)
  assume "numberPart s = (ok, r)"
  with a b show ?thesis
    by (auto simp: numberPart_def Let_def split: if_splits)
qed

lemma unitMap_Nil: "unitMap [] = None"
  by (simp add: unitMap_def)

lemma length_takeWhile_dropWhile:
  "length (takeWhile P xs) + length (dropWhile P xs) = length xs"
  by (metis length_append takeWhile_dropWhile_id)

lemma dropWhile_shorter: "takeWhile P xs \<noteq> [] \<Longrightarrow> length (dropWhile P xs) < length xs"
  using length_takeWhile_dropWhile [of P xs] by (cases "takeWhile P xs") auto

lemma goChunks_shorter:
  assumes "(ok, s2) = numberPart s" and "unitMap (takeWhile unitChar s2) = Some y"
  shows "length (dropWhile unitChar s2) < length s"
proof -
  from assms(2) have "takeWhile unitChar s2 \<noteq> []" using unitMap_Nil by auto
  then have "length (dropWhile unitChar s2) < length s2" by (rule dropWhile_shorter)
  moreover have "length s2 \<le> length s" using assms(1) numberPart_length [of s ok s2] by simp
  ultimately show ?thesis by simp
qed

function goChunks :: "string \<Rightarrow> bool" where
  "goChunks s =
     (if s = [] then True
      else case numberPart s of
        (ok, s2) \<Rightarrow>
          if ok \<and> unitMap (takeWhile unitChar s2) \<noteq> None
          then goChunks (dropWhile unitChar s2)
          else False)"
  by pat_completeness auto
termination
  by (relation "measure length") (auto intro: goChunks_shorter)

declare goChunks.simps [simp del]

definition goFormat :: "string \<Rightarrow> bool" where
  "goFormat orig =
     (let s = (if orig \<noteq> [] \<and> (hd orig = CHR ''-'' \<or> hd orig = CHR ''+'') then tl orig else orig)
      in s = ''0'' \<or> (s \<noteq> [] \<and> goChunks s))"

text \<open>The format as the specification words it: a sequence of one or more pairs of an
  integer and a unit, the unit one of \<^verbatim>\<open>h\<close>, \<^verbatim>\<open>m\<close>, \<^verbatim>\<open>s\<close>.\<close>

datatype hms_state = AtStart | InNumber | AfterUnit

fun hmsScan :: "hms_state \<Rightarrow> string \<Rightarrow> bool" where
  "hmsScan st [] = (st = AfterUnit)"
| "hmsScan st (c # cs) =
     (if isDigit c then hmsScan InNumber cs
      else if st = InNumber \<and> (c = CHR ''h'' \<or> c = CHR ''m'' \<or> c = CHR ''s'')
      then hmsScan AfterUnit cs
      else False)"

definition hmsFormat :: "string \<Rightarrow> bool" where
  "hmsFormat s = hmsScan AtStart s"

section \<open>The sound library built by NewCmd\<close>

text \<open>The loop of \<^verbatim>\<open>NewCmd\<close> over the directory listing \<^verbatim>\<open>fi\<close>:
  \<^verbatim>\<open>name := strings.Replace(filepath.Base(v.Name()), filepath.Ext(v.Name()), "", 1)\<close>,
  \<^verbatim>\<open>cmd.sounds[name] = filepath.Join(soundsDir, v.Name())\<close>.
  \<^verbatim>\<open>filepath.Join\<close> is taken as the parameter \<open>join\<close>.\<close>

definition soundName :: "string \<Rightarrow> string" where
  "soundName v = Replace1 (Base v) (Ext v) []"

fun loadSounds ::
  "(string \<Rightarrow> string \<Rightarrow> string) \<Rightarrow> string \<Rightarrow> string list \<Rightarrow> (string \<rightharpoonup> string) \<Rightarrow> (string \<rightharpoonup> string)"
where
  "loadSounds join soundsDir [] m = m"
| "loadSounds join soundsDir (v # vs) m =
     loadSounds join soundsDir vs (m(soundName v \<mapsto> join soundsDir v))"

section \<open>The command and its surroundings\<close>

text \<open>The fields of \<^verbatim>\<open>cmdArgs\<close> (prefixed, since the methods \<^verbatim>\<open>notify\<close>, \<^verbatim>\<open>addSound\<close>
  and \<^verbatim>\<open>deleteSound\<close> have the fields' names) and of \<^verbatim>\<open>Cmd\<close>; the table
  \<^verbatim>\<open>funcs\<close> never changes after \<^verbatim>\<open>NewCmd\<close> and is the constant \<open>funcs\<close> below.\<close>

record cmdArgs =
  arg_time :: string
  arg_sound :: string
  arg_sounds :: bool
  arg_notify :: bool
  arg_addSound :: string
  arg_deleteSound :: string
  arg_verbose :: bool

record Cmd =
  args :: cmdArgs
  sounds :: "string \<rightharpoonup> string"

text \<open>Go's \<^verbatim>\<open>error\<close> values of the program: its own \<^verbatim>\<open>errSoundNotFound\<close>, the parser's
  errors, and the errors of the operating system and of the helper programs (their
  text). A method returns \<^verbatim>\<open>nil\<close> (\<open>Success\<close>) or an error, or panics.\<close>

datatype error = errSoundNotFound | DurationError duration_error | SysError string

datatype outcome = Success | Failure error | Panic string

text \<open>What the program writes to standard output: a line of \<^verbatim>\<open>fmt.Println\<close>, an error
  printed in verbose mode, the carriage return followed by a number of blanks, a progress
  line (percent, passed, remaining, total; durations in nanoseconds) and the line
  \<^verbatim>\<open>Timer expired!\<close>.\<close>

datatype event =
    Line string
  | ErrLine error
  | Blank nat
  | Progress int int int int
  | Expired

text \<open>
  The program's surroundings are parameters: the file system, the environment, the
  notification daemon and the sound player act on a world of type \<open>'w\<close>.
  \<^verbatim>\<open>filepath.Join\<close>, \<^verbatim>\<open>getSoundsDir()\<close>, the floating-point fraction of the duration
  parser and the order in which Go ranges over a map are parameters too. A call that can
  fail returns the error's text.
\<close>

record 'w externals =
  Join :: "string \<Rightarrow> string \<Rightarrow> string"
  getSoundsDir :: string
  floatFraction :: "nat \<Rightarrow> nat \<Rightarrow> nat \<Rightarrow> nat"
  rangeKeys :: "(string \<rightharpoonup> string) \<Rightarrow> string list"
  Getenv :: "string \<Rightarrow> 'w \<Rightarrow> string"
  ReadFile :: "string \<Rightarrow> 'w \<Rightarrow> string + string"
  WriteFile :: "string \<Rightarrow> string \<Rightarrow> 'w \<Rightarrow> string option \<times> 'w"
  Remove :: "string \<Rightarrow> 'w \<Rightarrow> string option \<times> 'w"
  Notify :: "string \<Rightarrow> string \<Rightarrow> string \<Rightarrow> 'w \<Rightarrow> string option \<times> 'w"
  CombinedOutput :: "string \<Rightarrow> string list \<Rightarrow> 'w \<Rightarrow> string option \<times> 'w"

record 'w state =
  cmd :: Cmd
  world :: 'w
  out :: "event list"

definition println :: "string \<Rightarrow> 'w state \<Rightarrow> 'w state" where
  "println s st = st\<lparr>out := out st @ [Line s]\<rparr>"

section \<open>The countdown of timed\<close>

text \<open>
  After \<^verbatim>\<open>time.NewTicker(t / 100)\<close> the method \<^verbatim>\<open>timed\<close> is two goroutines and a
  ticker. The main goroutine prints the line of 0 percent, starts the updater, sleeps for
  \<open>t\<close>, sends on the unbuffered channel \<^verbatim>\<open>done\<close> and prints the expiry line. The updater
  loops over a \<^verbatim>\<open>select\<close>: on a tick it prints a progress line and advances \<^verbatim>\<open>passed\<close> and
  \<^verbatim>\<open>pc\<close>; on \<^verbatim>\<open>done\<close> it returns.

  The embedding is a machine whose steps are chosen by a schedule. The clock \<open>now\<close>
  counts nanoseconds since the ticker was made. \<^verbatim>\<open>time.Sleep\<close> returns no earlier than
  asked, the ticker fires no earlier than due, and nothing bounds how late either is:
  \<^item> \<open>Advance d\<close>: time passes;
  \<^item> \<open>Fire\<close>: the ticker, due, puts a tick into its channel of capacity one (a tick
    that finds the channel full is dropped) and moves its next firing to the first
    multiple of the period after \<open>now\<close>;
  \<^item> \<open>Start\<close>: the main goroutine prints the first two lines, starts the updater
    (\<^verbatim>\<open>pc := 1\<close>, \<^verbatim>\<open>passed := unit\<close>) and calls \<^verbatim>\<open>time.Sleep(t)\<close>;
  \<^item> \<open>Recv\<close>: the updater, at its \<^verbatim>\<open>select\<close>, takes a tick;
  \<^item> \<open>Print\<close>: the updater prints its two lines and advances \<^verbatim>\<open>passed\<close> and \<^verbatim>\<open>pc\<close>;
  \<^item> \<open>Wake\<close>: the sleep, over, returns;
  \<^item> \<open>Stop\<close>: the send on \<^verbatim>\<open>done\<close> meets the updater's receive at its \<^verbatim>\<open>select\<close>;
    the updater returns;
  \<^item> \<open>Expire\<close>: the main goroutine prints the expiry line and \<^verbatim>\<open>timed\<close> returns.
  Every line is recorded with the clock at which it was printed.
\<close>

datatype main_loc = MStart | MSleep | MSend | MExpire | MReturn

datatype updater_loc = UNone | USelect | UPrint | UDone

datatype action = Advance nat | Fire | Start | Recv | Print | Wake | Stop | Expire

record countdown =
  total :: int
  unit :: int
  now :: int
  nextTick :: int
  tickC :: bool
  wakeAt :: int
  mloc :: main_loc
  uloc :: updater_loc
  pc :: int
  passed :: int
  printed :: "(int \<times> event) list"

definition cinit :: "int \<Rightarrow> countdown" where
  "cinit t =
     \<lparr>total = t, unit = t sdiv 100, now = 0, nextTick = t sdiv 100, tickC = False,
      wakeAt = 0, mloc = MStart, uloc = UNone, pc = 0, passed = 0, printed = []\<rparr>"

fun cstep :: "action \<Rightarrow> countdown \<Rightarrow> countdown option" where
  "cstep (Advance d) c = Some (c\<lparr>now := now c + int d\<rparr>)"
| "cstep Fire c =
     (if nextTick c \<le> now c
      then Some (c\<lparr>tickC := True,
                   nextTick := nextTick c + unit c * (1 + (now c - nextTick c) div unit c)\<rparr>)
      else None)"
| "cstep Start c =
     (if mloc c = MStart
      then Some (c\<lparr>printed := printed c @
                     [(now c, Blank 81), (now c, Progress 0 0 (total c) (total c))],
                   uloc := USelect, pc := 1, passed := unit c,
                   wakeAt := now c + total c, mloc := MSleep\<rparr>)
      else None)"
| "cstep Recv c =
     (if uloc c = USelect \<and> tickC c then Some (c\<lparr>tickC := False, uloc := UPrint\<rparr>)
      else None)"
| "cstep Print c =
     (if uloc c = UPrint
      then Some (c\<lparr>printed := printed c @
                     [(now c, Blank 73),
                      (now c, Progress (pc c) (passed c) (total c - passed c) (total c))],
                   passed := passed c + unit c, pc := pc c + 1, uloc := USelect\<rparr>)
      else None)"
| "cstep Wake c =
     (if mloc c = MSleep \<and> wakeAt c \<le> now c then Some (c\<lparr>mloc := MSend\<rparr>) else None)"
| "cstep Stop c =
     (if mloc c = MSend \<and> uloc c = USelect then Some (c\<lparr>mloc := MExpire, uloc := UDone\<rparr>)
      else None)"
| "cstep Expire c =
     (if mloc c = MExpire
      then Some (c\<lparr>printed := printed c @ [(now c, Expired)], mloc := MReturn\<rparr>)
      else None)"

text \<open>A schedule is run step by step; a step that is not enabled makes the schedule no
  execution of the program (\<open>None\<close>).\<close>

fun crun :: "action list \<Rightarrow> countdown \<Rightarrow> countdown option" where
  "crun [] c = Some c"
| "crun (a # as) c = (case cstep a c of None \<Rightarrow> None | Some c' \<Rightarrow> crun as c')"

section \<open>The operations\<close>

text \<open>
  \<^verbatim>\<open>timed\<close>: a duration that does not parse is an error; \<^verbatim>\<open>time.NewTicker\<close> panics on
  an interval that is not positive; otherwise the countdown runs under the schedule, and
  the method returns once the main goroutine has. Go's \<^verbatim>\<open>/\<close> on integers truncates
  (\<open>sdiv\<close>). The result is \<open>None\<close> when the schedule is no complete execution.
\<close>

definition timed ::
  "'w externals \<Rightarrow> action list \<Rightarrow> 'w state \<Rightarrow> (outcome \<times> 'w state) option"
where
  "timed X sched st =
     (case ParseDuration (floatFraction X) (arg_time (args (cmd st))) of
        Inl e \<Rightarrow> Some (Failure (DurationError e), println ''Error parsing time value'' st)
      | Inr t \<Rightarrow>
          if t sdiv 100 \<le> 0
          then Some (Panic ''non-positive interval for NewTicker'', st)
          else (case crun sched (cinit t) of
                  None \<Rightarrow> None
                | Some c \<Rightarrow>
                    if mloc c = MReturn
                    then Some (Success, st\<lparr>out := out st @ map snd (printed c)\<rparr>)
                    else None))"

definition defaultSoundCommand :: string where
  "defaultSoundCommand = ''audacious --headless --quit-after-play FILE''"

definition timerSoundCommand :: string where
  "timerSoundCommand = ''TIMER_SOUND_CMD''"

definition playSound :: "'w externals \<Rightarrow> 'w state \<Rightarrow> outcome \<times> 'w state" where
  "playSound X st =
     (case sounds (cmd st) (arg_sound (args (cmd st))) of
        None \<Rightarrow> (Failure errSoundNotFound, println ''Selected sound not found'' st)
      | Some path \<Rightarrow>
          let env = Getenv X timerSoundCommand (world st);
              command = (if env = [] then defaultSoundCommand else env);
              s = SplitSpace (Replace1 command ''FILE'' path)
          in (case s of
                [] \<Rightarrow> (Panic ''index out of range'', st)
              | name # rest \<Rightarrow>
                  (case CombinedOutput X name rest (world st) of
                     (None, w) \<Rightarrow> (Success, st\<lparr>world := w\<rparr>)
                   | (Some e, w) \<Rightarrow>
                       (Failure (SysError e), println ''Error playing sound'' (st\<lparr>world := w\<rparr>)))))"

definition timedSound ::
  "'w externals \<Rightarrow> action list \<Rightarrow> 'w state \<Rightarrow> (outcome \<times> 'w state) option"
where
  "timedSound X sched st =
     (case sounds (cmd st) (arg_sound (args (cmd st))) of
        None \<Rightarrow>
          Some (Failure errSoundNotFound,
                println (''Selected sound '' @ arg_sound (args (cmd st)) @ '' not available'') st)
      | Some path \<Rightarrow>
          (case timed X sched st of
             None \<Rightarrow> None
           | Some (Success, st1) \<Rightarrow> Some (playSound X st1)
           | Some (r, st1) \<Rightarrow> Some (r, st1)))"

definition notify :: "'w externals \<Rightarrow> 'w state \<Rightarrow> outcome \<times> 'w state" where
  "notify X st =
     (case Notify X ''Timer'' ''Time is expired!'' [] (world st) of
        (None, w) \<Rightarrow> (Success, st\<lparr>world := w\<rparr>)
      | (Some e, w) \<Rightarrow>
          (Failure (SysError e), println ''Error showing notification'' (st\<lparr>world := w\<rparr>)))"

definition timedNotify ::
  "'w externals \<Rightarrow> action list \<Rightarrow> 'w state \<Rightarrow> (outcome \<times> 'w state) option"
where
  "timedNotify X sched st =
     (case timed X sched st of
        None \<Rightarrow> None
      | Some (Success, st1) \<Rightarrow> Some (notify X st1)
      | Some (r, st1) \<Rightarrow> Some (r, st1))"

definition timedSoundNotify ::
  "'w externals \<Rightarrow> action list \<Rightarrow> 'w state \<Rightarrow> (outcome \<times> 'w state) option"
where
  "timedSoundNotify X sched st =
     (case timed X sched st of
        None \<Rightarrow> None
      | Some (Success, st1) \<Rightarrow>
          (case notify X st1 of
             (Success, st2) \<Rightarrow> Some (playSound X st2)
           | (r, st2) \<Rightarrow> Some (r, st2))
      | Some (r, st1) \<Rightarrow> Some (r, st1))"

definition listSounds :: "'w externals \<Rightarrow> 'w state \<Rightarrow> outcome \<times> 'w state" where
  "listSounds X st = (Success, st\<lparr>out := out st @ map Line (rangeKeys X (sounds (cmd st)))\<rparr>)"

definition addSound :: "'w externals \<Rightarrow> 'w state \<Rightarrow> outcome \<times> 'w state" where
  "addSound X st =
     (let fileLoc = arg_addSound (args (cmd st)) in
      case ReadFile X fileLoc (world st) of
        Inl e \<Rightarrow> (Failure (SysError e), println ''Error adding sound file'' st)
      | Inr data \<Rightarrow>
          (let newFileLoc = Join X (getSoundsDir X) (Base fileLoc) in
           case WriteFile X newFileLoc data (world st) of
             (Some e, w) \<Rightarrow>
               (Failure (SysError e), println ''Error adding sound file'' (st\<lparr>world := w\<rparr>))
           | (None, w) \<Rightarrow> (Success, st\<lparr>world := w\<rparr>)))"

definition deleteSound :: "'w externals \<Rightarrow> 'w state \<Rightarrow> outcome \<times> 'w state" where
  "deleteSound X st =
     (case sounds (cmd st) (arg_deleteSound (args (cmd st))) of
        None \<Rightarrow> (Failure errSoundNotFound, println ''Sound with the given name not found'' st)
      | Some fileLoc \<Rightarrow>
          (case Remove X fileLoc (world st) of
             (Some e, w) \<Rightarrow>
               (Failure (SysError e),
                println ''Unable to remove the sound with given name'' (st\<lparr>world := w\<rparr>))
           | (None, w) \<Rightarrow> (Success, st\<lparr>world := w\<rparr>)))"

section \<open>The dispatch of Run\<close>

text \<open>The places of the arguments in the bitmap (\<^verbatim>\<open>iota + 1\<close>: the first is 1), the
  table \<^verbatim>\<open>cmd.funcs\<close> as \<^verbatim>\<open>NewCmd\<close> fills it, and the bitmap \<^verbatim>\<open>argsSet\<close> as \<^verbatim>\<open>Run\<close>
  computes it after \<^verbatim>\<open>flag.Parse\<close>. Go's \<^verbatim>\<open>int\<close> is \<open>int\<close> here: no value exceeds 126.\<close>

definition argTime :: nat where "argTime = 1"
definition argSound :: nat where "argSound = 2"
definition argSounds :: nat where "argSounds = 3"
definition argNotify :: nat where "argNotify = 4"
definition argAddSound :: nat where "argAddSound = 5"
definition argDeleteSound :: nat where "argDeleteSound = 6"

datatype operation =
    Timed | TimedSound | TimedNotify | TimedSoundNotify
  | ListSounds | PlaySound | AddSound | DeleteSound

definition funcs :: "int \<rightharpoonup> operation" where
  "funcs = Map.empty
     (push_bit argTime 1 \<mapsto> Timed,
      push_bit argTime 1 OR push_bit argSound 1 \<mapsto> TimedSound,
      push_bit argTime 1 OR push_bit argNotify 1 \<mapsto> TimedNotify,
      push_bit argTime 1 OR push_bit argSound 1 OR push_bit argNotify 1 \<mapsto> TimedSoundNotify,
      push_bit argSounds 1 \<mapsto> ListSounds,
      push_bit argSound 1 \<mapsto> PlaySound,
      push_bit argAddSound 1 \<mapsto> AddSound,
      push_bit argDeleteSound 1 \<mapsto> DeleteSound)"

definition argsSet :: "cmdArgs \<Rightarrow> int" where
  "argsSet a =
     (let s0 = 0;
          s1 = (if arg_time a \<noteq> [] then s0 OR push_bit argTime 1 else s0);
          s2 = (if arg_sound a \<noteq> [] then s1 OR push_bit argSound 1 else s1);
          s3 = (if arg_sounds a \<noteq> False then s2 OR push_bit argSounds 1 else s2);
          s4 = (if arg_notify a \<noteq> False then s3 OR push_bit argNotify 1 else s3);
          s5 = (if arg_addSound a \<noteq> [] then s4 OR push_bit argAddSound 1 else s4);
          s6 = (if arg_deleteSound a \<noteq> [] then s5 OR push_bit argDeleteSound 1 else s5)
      in s6)"

text \<open>The method a table entry stands for.\<close>

fun call ::
  "'w externals \<Rightarrow> action list \<Rightarrow> operation \<Rightarrow> 'w state \<Rightarrow> (outcome \<times> 'w state) option"
where
  "call X sched Timed st = timed X sched st"
| "call X sched TimedSound st = timedSound X sched st"
| "call X sched TimedNotify st = timedNotify X sched st"
| "call X sched TimedSoundNotify st = timedSoundNotify X sched st"
| "call X sched ListSounds st = Some (listSounds X st)"
| "call X sched PlaySound st = Some (playSound X st)"
| "call X sched AddSound st = Some (addSound X st)"
| "call X sched DeleteSound st = Some (deleteSound X st)"

text \<open>How \<^verbatim>\<open>Run\<close> ends: it returns, it calls \<^verbatim>\<open>os.Exit\<close> with a status, or a panic
  ends the process.\<close>

datatype ending = Returns | Exits int | Panics string

definition invalidOptions :: "'w state \<Rightarrow> 'w state" where
  "invalidOptions st =
     println (''Type '' @ [CHR 0x27] @ ''timer -help'' @ [CHR 0x27] @ '' to see how to use'')
       (println ''Received invalid set of options'' st)"

text \<open>After the selected method: \<^verbatim>\<open>if err := f(); err != nil\<close> prints the error in
  verbose mode and exits with status 1.\<close>

fun finish :: "outcome \<times> 'w state \<Rightarrow> ending \<times> 'w state" where
  "finish (Success, st) = (Returns, st)"
| "finish (Failure err, st) =
     (Exits 1, if arg_verbose (args (cmd st)) then st\<lparr>out := out st @ [ErrLine err]\<rparr> else st)"
| "finish (Panic m, st) = (Panics m, st)"

definition Run ::
  "'w externals \<Rightarrow> action list \<Rightarrow> 'w state \<Rightarrow> (ending \<times> 'w state) option"
where
  "Run X sched st =
     (case funcs (argsSet (args (cmd st))) of
        Some f \<Rightarrow> map_option finish (call X sched f st)
      | None \<Rightarrow> Some (Exits 1, invalidOptions st))"

text \<open>The table of the operations by the flags given, as the specification lists it
  (time, sound, sounds, notify, addsound, deletesound); every other combination has no
  operation.\<close>

fun legalCombination ::
  "bool \<Rightarrow> bool \<Rightarrow> bool \<Rightarrow> bool \<Rightarrow> bool \<Rightarrow> bool \<Rightarrow> operation option"
where
  "legalCombination True False False False False False = Some Timed"
| "legalCombination True True False False False False = Some TimedSound"
| "legalCombination True False False True False False = Some TimedNotify"
| "legalCombination True True False True False False = Some TimedSoundNotify"
| "legalCombination False False True False False False = Some ListSounds"
| "legalCombination False True False False False False = Some PlaySound"
| "legalCombination False False False False True False = Some AddSound"
| "legalCombination False False False False False True = Some DeleteSound"
| "legalCombination t s l n a d = None"

definition flagsOp :: "cmdArgs \<Rightarrow> operation option" where
  "flagsOp a =
     legalCombination (arg_time a \<noteq> []) (arg_sound a \<noteq> []) (arg_sounds a) (arg_notify a)
       (arg_addSound a \<noteq> []) (arg_deleteSound a \<noteq> [])"

section \<open>A small world for examples\<close>

text \<open>An in-memory file system (path to contents) in which the notification and the
  player always succeed and the environment is empty; it instantiates the theorems
  below at concrete inputs.\<close>

definition memX :: "(string \<rightharpoonup> string) externals" where
  "memX =
     \<lparr>Join = (\<lambda>d n. d @ ''/'' @ n),
      getSoundsDir = ''/home/u/.config/timer/sounds'',
      floatFraction = (\<lambda>f k u. (f * u) div 10 ^ k),
      rangeKeys = (\<lambda>m. []),
      Getenv = (\<lambda>n w. []),
      ReadFile = (\<lambda>p w. case w p of None \<Rightarrow> Inl ''no such file'' | Some data \<Rightarrow> Inr data),
      WriteFile = (\<lambda>p data w. (None, w(p \<mapsto> data))),
      Remove = (\<lambda>p w. if w p = None then (Some ''no such file'', w) else (None, w(p := None))),
      Notify = (\<lambda>title body icon w. (None, w)),
      CombinedOutput = (\<lambda>name as w. (None, w))\<rparr>"

definition memArgs :: cmdArgs where
  "memArgs =
     \<lparr>arg_time = [], arg_sound = [], arg_sounds = False, arg_notify = False,
      arg_addSound = [], arg_deleteSound = [], arg_verbose = False\<rparr>"

definition memState :: "cmdArgs \<Rightarrow> (string \<rightharpoonup> string) state" where
  "memState a =
     \<lparr>cmd = \<lparr>args = a,
              sounds = [''Alien'' \<mapsto> ''/home/u/.config/timer/sounds/Alien.mp3'']\<rparr>,
      world = [''/home/u/.config/timer/sounds/Alien.mp3'' \<mapsto> ''RIFF'', ''/tmp/Bell.wav'' \<mapsto> ''WAVE''],
      out = []\<rparr>"

section \<open>Properties of the sound library\<close>

text \<open>
  C5. The name under which \<^verbatim>\<open>NewCmd\<close> registers a file is meant to be the file's name
  without its extension. \<^verbatim>\<open>strings.Replace\<close> removes the first occurrence of the
  extension's text, which need not be the extension: the directory entry
  \<^verbatim>\<open>song.mp3.old.mp3\<close> is registered as \<^verbatim>\<open>song.old.mp3\<close>, and the name without the
  extension, \<^verbatim>\<open>song.mp3.old\<close>, is not in the library.
\<close>

theorem soundName_removes_first_occurrence:
  "soundName ''song.mp3.old.mp3'' = ''song.old.mp3'' \<and>
   loadSounds j d [''song.mp3.old.mp3''] Map.empty ''song.mp3.old'' = None \<and>
   loadSounds j d [''song.mp3.old.mp3''] Map.empty ''song.old.mp3'' = Some (j d ''song.mp3.old.mp3'')"
proof -
  have n: "soundName ''song.mp3.old.mp3'' = ''song.old.mp3''"
    by code_simp
  show ?thesis
    unfolding loadSounds.simps n by simp
qed

section \<open>Properties of the duration parser\<close>

lemma leadingInt_dropWhile:
  "leadingInt x s = Some (v, r) \<Longrightarrow> r = dropWhile isDigit s"
  by (induction x s rule: leadingInt.induct) (auto split: if_splits)

lemma leadingFraction_dropWhile:
  "leadingFraction x k b s = (f, k', r) \<Longrightarrow> r = dropWhile isDigit s"
  by (induction x k b s rule: leadingFraction.induct) (auto split: if_splits)

lemma length_dropWhile_eq: "(length (dropWhile P xs) = length xs) = (takeWhile P xs = [])"
  using length_takeWhile_dropWhile [of P xs] by auto

lemma parseChunk_numberPart:
  assumes "parseChunk fr s = Inr (v, r)"
  shows "\<exists>s2. numberPart s = (True, s2) \<and> unitMap (takeWhile unitChar s2) \<noteq> None \<and>
           r = dropWhile unitChar s2"
proof -
  from assms obtain v0 s1 where li: "leadingInt 0 s = Some (v0, s1)"
    by (auto simp: parseChunk_def split: if_splits option.splits)
  obtain f k s2 post where fp: "fractionPart s1 = (f, k, s2, post)"
    by (cases "fractionPart s1") auto
  have s1: "s1 = dropWhile isDigit s" using li by (rule leadingInt_dropWhile)
  from assms li fp have pre: "length s \<noteq> length s1 \<or> post"
    and u: "unitMap (takeWhile unitChar s2) \<noteq> None" and r: "r = dropWhile unitChar s2"
    by (auto simp: parseChunk_def Let_def split: if_splits option.splits)
  have "numberPart s = (True, s2)"
  proof (cases "s1 \<noteq> [] \<and> hd s1 = CHR ''.''")
    case True
    obtain f' k' r' where lf: "leadingFraction 0 0 False (tl s1) = (f', k', r')"
      by (cases "leadingFraction 0 0 False (tl s1)") auto
    have r': "r' = dropWhile isDigit (tl s1)" using lf by (rule leadingFraction_dropWhile)
    from fp True lf have s2: "s2 = r'" and post: "post = (length (tl s1) \<noteq> length r')"
      by (auto simp: fractionPart_def)
    from pre post r' s1 have "takeWhile isDigit s \<noteq> [] \<or> takeWhile isDigit (tl s1) \<noteq> []"
      using length_dropWhile_eq [of isDigit s] length_dropWhile_eq [of isDigit "tl s1"] by auto
    with True s1 s2 r' show ?thesis by (auto simp: numberPart_def Let_def)
  next
    case False
    with fp have s2: "s2 = s1" and post: "\<not> post" by (auto simp: fractionPart_def)
    from pre post s1 have "takeWhile isDigit s \<noteq> []"
      using length_dropWhile_eq [of isDigit s] by auto
    with False s1 s2 show ?thesis by (auto simp: numberPart_def Let_def)
  qed
  with u r show ?thesis by blast
qed

lemma parseChunks_goChunks: "parseChunks fr d s = Inr d' \<Longrightarrow> goChunks s"
proof (induction fr d s rule: parseChunks.induct)
  case (1 fr d s)
  show ?case
  proof (cases "s = []")
    case True
    then show ?thesis by (simp add: goChunks.simps)
  next
    case False
    from "1.prems" False obtain v r where pc: "parseChunk fr s = Inr (v, r)"
      and le: "\<not> (d + v) mod 2 ^ 64 > 2 ^ 63"
      and rest: "parseChunks fr ((d + v) mod 2 ^ 64) r = Inr d'"
      by (subst (asm) parseChunks.simps) (auto split: sum.splits if_splits)
    from "1.IH" [OF False pc refl le rest] have g: "goChunks r" .
    from parseChunk_numberPart [OF pc] obtain s2 where
      "numberPart s = (True, s2)" "unitMap (takeWhile unitChar s2) \<noteq> None" "r = dropWhile unitChar s2"
      by blast
    with g False show ?thesis by (subst goChunks.simps) simp
  qed
qed

lemma ParseDuration_goFormat:
  assumes "ParseDuration fr s = Inr t"
  shows "goFormat s"
proof -
  define s' where "s' = (if s \<noteq> [] \<and> (hd s = CHR ''-'' \<or> hd s = CHR ''+'') then tl s else s)"
  show ?thesis
  proof (cases "s' = ''0''")
    case True
    then show ?thesis by (simp add: goFormat_def s'_def)
  next
    case False
    with assms have ne: "s' \<noteq> []" and "\<exists>d. parseChunks fr 0 s' = Inr d"
      by (auto simp: ParseDuration_def Let_def s'_def split: if_splits sum.splits)
    then have "goChunks s'" by (auto dest: parseChunks_goChunks)
    with ne show ?thesis by (simp add: goFormat_def s'_def)
  qed
qed

lemma ParseDuration_2h: "ParseDuration fr ''2h'' = Inr 7200000000000" by code_simp
lemma ParseDuration_2m200s: "ParseDuration fr ''2m200s'' = Inr 320000000000" by code_simp
lemma ParseDuration_empty: "ParseDuration fr [] = Inl InvalidDuration" by code_simp
lemma not_goFormat_2x: "\<not> goFormat ''2x''" by code_simp
lemma goFormat_signed_fraction: "goFormat ''-1.5h3ms''" by code_simp

text \<open>
  C3, as amended. \<^verbatim>\<open>2h\<close> is 7200 seconds and \<^verbatim>\<open>2m200s\<close> is 320 seconds (in
  nanoseconds); the empty string is an error; and every string outside the parser's
  format \<open>goFormat\<close> is an error, whatever the floating-point fraction \<open>fr\<close> does.
\<close>

theorem ParseDuration_cases:
  "ParseDuration fr ''2h'' = Inr (7200 * 1000000000) \<and>
   ParseDuration fr ''2m200s'' = Inr (320 * 1000000000) \<and>
   ParseDuration fr [] = Inl InvalidDuration \<and>
   (\<not> goFormat s \<longrightarrow> (\<exists>e. ParseDuration fr s = Inl e))"
proof -
  have "\<not> goFormat s \<longrightarrow> (\<exists>e. ParseDuration fr s = Inl e)"
    using ParseDuration_goFormat [of fr s] by (cases "ParseDuration fr s") auto
  with ParseDuration_2h ParseDuration_2m200s ParseDuration_empty show ?thesis by simp
qed

text \<open>The theorem at the string \<^verbatim>\<open>2x\<close>, whose unit is unknown.\<close>

theorem ParseDuration_cases_witness:
  "\<not> goFormat ''2x'' \<and> (\<exists>e. ParseDuration (floatFraction memX) ''2x'' = Inl e)"
  using ParseDuration_cases [of "floatFraction memX" "''2x''"] not_goFormat_2x by blast

text \<open>
  C3 as the specification states it fails: \<^verbatim>\<open>100ms\<close> is no sequence of integers with
  units \<^verbatim>\<open>h\<close>, \<^verbatim>\<open>m\<close>, \<^verbatim>\<open>s\<close>, and it parses, to 100 milliseconds.
\<close>

theorem ParseDuration_accepts_milliseconds:
  "\<not> hmsFormat ''100ms'' \<and> ParseDuration (floatFraction memX) ''100ms'' = Inr 100000000"
proof -
  have "\<not> hmsFormat ''100ms''" by code_simp
  moreover have "ParseDuration (floatFraction memX) ''100ms'' = Inr 100000000" by code_simp
  ultimately show ?thesis by simp
qed

section \<open>Properties of the dispatch\<close>

lemma funcs_argsSet: "funcs (argsSet a) = flagsOp a"
  by (simp add: argsSet_def funcs_def flagsOp_def argTime_def argSound_def argSounds_def
      argNotify_def argAddSound_def argDeleteSound_def)

lemma dom_funcs: "dom funcs = {2, 4, 6, 8, 18, 22, 32, 64}"
  by (auto simp add: funcs_def argTime_def argSound_def argSounds_def
      argNotify_def argAddSound_def argDeleteSound_def split: if_splits)

text \<open>
  C1, as amended. The table has eight entries. For every state, the entry \<^verbatim>\<open>Run\<close> finds
  for the bitmap of the flags given is the operation of the specification's table for
  exactly these flags; with no such operation \<^verbatim>\<open>Run\<close> prints that the set of options is
  invalid and exits with status 1, and otherwise it runs that operation and no other.
\<close>

theorem Run_dispatch:
  "funcs (argsSet (args (cmd st))) = flagsOp (args (cmd st)) \<and>
   (flagsOp (args (cmd st)) = None \<longrightarrow> Run X sched st = Some (Exits 1, invalidOptions st)) \<and>
   (\<forall>f. flagsOp (args (cmd st)) = Some f \<longrightarrow>
        Run X sched st = map_option finish (call X sched f st))"
  by (simp add: funcs_argsSet Run_def)

text \<open>The theorem at two inputs: \<^verbatim>\<open>-t 1s -a /tmp/Bell.wav\<close>, which is no legal
  combination, and \<^verbatim>\<open>-d Alien\<close>, which selects \<^verbatim>\<open>deleteSound\<close>.\<close>

theorem Run_dispatch_witness:
  "flagsOp (memArgs\<lparr>arg_time := ''1s'', arg_addSound := ''/tmp/Bell.wav''\<rparr>) = None \<and>
   map_option fst
     (Run memX [] (memState (memArgs\<lparr>arg_time := ''1s'', arg_addSound := ''/tmp/Bell.wav''\<rparr>)))
     = Some (Exits 1) \<and>
   flagsOp (memArgs\<lparr>arg_deleteSound := ''Alien''\<rparr>) = Some DeleteSound \<and>
   Run memX [] (memState (memArgs\<lparr>arg_deleteSound := ''Alien''\<rparr>)) =
     map_option finish
       (call memX [] DeleteSound (memState (memArgs\<lparr>arg_deleteSound := ''Alien''\<rparr>)))"
proof -
  have a: "flagsOp (memArgs\<lparr>arg_time := ''1s'', arg_addSound := ''/tmp/Bell.wav''\<rparr>) = None"
    by (simp add: flagsOp_def memArgs_def)
  have b: "flagsOp (memArgs\<lparr>arg_deleteSound := ''Alien''\<rparr>) = Some DeleteSound"
    by (simp add: flagsOp_def memArgs_def)
  have c: "args (cmd (memState x)) = x" for x
    by (simp add: memState_def)
  from a b c
    Run_dispatch [of "memState (memArgs\<lparr>arg_time := ''1s'', arg_addSound := ''/tmp/Bell.wav''\<rparr>)" memX "[]"]
    Run_dispatch [of "memState (memArgs\<lparr>arg_deleteSound := ''Alien''\<rparr>)" memX "[]"]
  show ?thesis by simp
qed

text \<open>
  C1 as the specification states it fails in its count: the bitmaps with an entry are
  eight, not seven.
\<close>

theorem funcs_has_eight_entries:
  "dom funcs = {2, 4, 6, 8, 18, 22, 32, 64} \<and> card (dom funcs) = 8"
  by (simp add: dom_funcs)

end
